theory Spec2Isabelle
  imports Complex_Main
begin

section \<open>Values shared by the gateway (service-a) and the resolver (service-b)\<close>

text \<open>
  Go's \<open>error\<close> values. The three messages created with \<open>errors.New\<close> in the two
  services are constructors of their own; an error handed back by a library call
  (\<open>url.Parse\<close>, \<open>http.NewRequest\<close>, \<open>client.Do\<close>, \<open>io.ReadAll\<close>, the JSON decoders)
  carries its message.
\<close>

datatype error =
    InvalidZipcode
  | CanNotFindZipcode
  | InvalidAPIKey
  | LibraryError string

fun Error :: "error \<Rightarrow> string" where
  "Error InvalidZipcode = ''invalid zipcode''"
| "Error CanNotFindZipcode = ''can not find zipcode''"
| "Error InvalidAPIKey = ''error getting weather, invalid API key''"
| "Error (LibraryError m) = m"

text \<open>
  The class \<open>\d\<close> of Go's \<open>regexp\<close> is the ASCII digits \<open>0\<close> to \<open>9\<close>. A Go string is a
  sequence of bytes, as \<^typ>\<open>string\<close> is; the bytes of a multi-byte UTF-8 sequence are
  all above 127, so none of them is a digit.
\<close>

definition isDigit :: "char \<Rightarrow> bool" where
  "isDigit c = (48 \<le> (of_char c :: nat) \<and> (of_char c :: nat) \<le> 57)"

text \<open>
  \<open>float64\<close>. The services add two numbers, compare a number with zero and convert the
  integer constants \<open>273\<close> and \<open>0\<close>; they do so in IEEE 754 binary64 arithmetic, which
  rounds. The type of numbers is therefore a parameter \<open>'f\<close>, and its operations are the
  fields of a record, so that nothing said below depends on how the arithmetic rounds.
  \<open>f_mul\<close> and \<open>f_quo\<close> are used by no function of the services: only the formula of the
  specification needs them.
\<close>

record 'f float64_ops =
  f_const :: "int \<Rightarrow> 'f"
  f_add :: "'f \<Rightarrow> 'f \<Rightarrow> 'f"
  f_mul :: "'f \<Rightarrow> 'f \<Rightarrow> 'f"
  f_quo :: "'f \<Rightarrow> 'f \<Rightarrow> 'f"
  f_eq :: "'f \<Rightarrow> 'f \<Rightarrow> bool"

text \<open>The struct \<open>CEP\<close> (the body of a gateway request) and the struct \<open>Response\<close>.\<close>

record CEP =
  CEP :: string

record 'f Response =
  City :: string
  TempC :: 'f
  TempF :: 'f
  TempK :: 'f

text \<open>\<open>Response{}\<close>, the zero value.\<close>

definition Response_zero :: "'f float64_ops \<Rightarrow> 'f Response" where
  "Response_zero fl =
     \<lparr>City = [], TempC = f_const fl 0, TempF = f_const fl 0, TempK = f_const fl 0\<rparr>"

subsection \<open>HTTP messages\<close>

text \<open>
  A header is Go's \<open>http.Header\<close>, kept as the list of its (name, value) entries in the
  order they were added. Go looks names up in canonical form both when it stores and
  when it reads, so that a name is written here the way the source writes it.
\<close>

type_synonym Header = "(string \<times> string) list"

definition Header_Get :: "Header \<Rightarrow> string \<Rightarrow> string" where
  "Header_Get h k = (case map_of h k of None \<Rightarrow> [] | Some v \<Rightarrow> v)"

definition Header_Add :: "Header \<Rightarrow> string \<Rightarrow> string \<Rightarrow> Header" where
  "Header_Add h k v = h @ [(k, v)]"

definition Header_Set :: "Header \<Rightarrow> string \<Rightarrow> string \<Rightarrow> Header" where
  "Header_Set h k v = filter (\<lambda>kv. fst kv \<noteq> k) h @ [(k, v)]"

text \<open>
  A request, inbound or outbound. \<open>URL\<close> is the text before the query and \<open>Query\<close> the
  decoded query parameters (\<open>url.Values\<close>), in the order in which the source sets them.
\<close>

record Request =
  Method :: string
  URL :: string
  Query :: "(string \<times> string) list"
  Header :: Header
  Body :: string

definition Query_Get :: "(string \<times> string) list \<Rightarrow> string \<Rightarrow> string" where
  "Query_Get q k = (case map_of q k of None \<Rightarrow> [] | Some v \<Rightarrow> v)"

text \<open>
  What \<open>client.Do\<close> hands back on success: the status code and the body, a stream whose
  reading either fails or gives the bytes.
\<close>

record http_Response =
  StatusCode :: int
  ResBody :: "error + string"

definition StatusOK :: int where "StatusOK = 200"
definition StatusBadRequest :: int where "StatusBadRequest = 400"
definition StatusMethodNotAllowed :: int where "StatusMethodNotAllowed = 405"
definition StatusUnprocessableEntity :: int where "StatusUnprocessableEntity = 422"

text \<open>
  What a handler has written to its \<open>http.ResponseWriter\<close> when it returns. The payload
  is either a text, or the \<open>Response\<close> handed to \<open>json.NewEncoder(w).Encode\<close>.
\<close>

datatype 'f payload = Text string | JSON "'f Response"

record 'f reply =
  Status :: int
  ContentType :: string
  Payload :: "'f payload"

text \<open>\<open>http.Error(w, msg, code)\<close>: a plain text reply, the message followed by a newline.\<close>

definition http_Error :: "string \<Rightarrow> int \<Rightarrow> 'f reply" where
  "http_Error msg code =
     \<lparr>Status = code, ContentType = ''text/plain; charset=utf-8'',
      Payload = Text (msg @ [CHR 0x0A])\<rparr>"

text \<open>The three lines that end both handlers on success.\<close>

definition write_JSON :: "'f Response \<Rightarrow> 'f reply" where
  "write_JSON res = \<lparr>Status = StatusOK, ContentType = ''application/json'', Payload = JSON res\<rparr>"

subsection \<open>Trace context (OpenTelemetry)\<close>

text \<open>
  A span context: the trace id (32 lower-case hexadecimal digits), the span id (16 of
  them) and the sampling flag. A \<open>context.Context\<close> matters to the services only through
  the span context it carries, if any: \<open>context.Background()\<close>, and the context of an
  inbound request before \<open>Extract\<close>, carry none.
\<close>

record SpanContext =
  TraceID :: string
  SpanID :: string
  Sampled :: bool

type_synonym Context = "SpanContext option"

definition Background :: Context where
  "Background = None"

record Span =
  Name :: string
  SpanCtx :: SpanContext
  Parent :: "SpanContext option"

definition isHex :: "char \<Rightarrow> bool" where
  "isHex c = (isDigit c \<or> (97 \<le> (of_char c :: nat) \<and> (of_char c :: nat) \<le> 102))"

definition valid_id :: "nat \<Rightarrow> string \<Rightarrow> bool" where
  "valid_id n s = (length s = n \<and> list_all isHex s \<and> \<not> list_all (\<lambda>c. c = CHR ''0'') s)"

text \<open>
  The \<open>traceparent\<close> header of the W3C trace context, version \<open>00\<close>, which
  \<open>propagation.TraceContext\<close> writes and reads:
  \<open>00-<trace id>-<span id>-<flags>\<close>.
\<close>

definition traceparent :: "SpanContext \<Rightarrow> string" where
  "traceparent sc =
     ''00-'' @ TraceID sc @ ''-'' @ SpanID sc @ ''-'' @ (if Sampled sc then ''01'' else ''00'')"

definition parse_traceparent :: "string \<Rightarrow> SpanContext option" where
  "parse_traceparent h =
     (let tid = take 32 (drop 3 h); sid = take 16 (drop 36 h); flags = drop 53 h
      in if length h = 55 \<and> take 3 h = ''00-'' \<and> take 1 (drop 35 h) = ''-''
            \<and> take 1 (drop 52 h) = ''-'' \<and> valid_id 32 tid \<and> valid_id 16 sid
            \<and> (flags = ''00'' \<or> flags = ''01'' \<or> flags = ''02'')
         then Some \<lparr>TraceID = tid, SpanID = sid, Sampled = (flags = ''01'')\<rparr>
         else None)"

text \<open>
  \<open>otel.GetTextMapPropagator().Extract(ctx, carrier)\<close>: the context with the span context
  of the header when there is a valid one, the context unchanged otherwise.
\<close>

definition Extract :: "Context \<Rightarrow> Header \<Rightarrow> Context" where
  "Extract ctx carrier =
     (case parse_traceparent (Header_Get carrier ''traceparent'') of
        None \<Rightarrow> ctx
      | Some sc \<Rightarrow> Some sc)"

text \<open>\<open>otel.GetTextMapPropagator().Inject(ctx, carrier)\<close>: nothing without a span context.\<close>

definition Inject :: "Context \<Rightarrow> Header \<Rightarrow> Header" where
  "Inject ctx carrier =
     (case ctx of
        None \<Rightarrow> carrier
      | Some sc \<Rightarrow> Header_Set carrier ''traceparent'' (traceparent sc))"

subsection \<open>JSON values (fastjson)\<close>

datatype 'f Value =
    VNull
  | VTrue
  | VFalse
  | VNumber 'f
  | VString string
  | VArray "'f Value list"
  | VObject "(string \<times> 'f Value) list"

fun dec :: "nat \<Rightarrow> string \<Rightarrow> nat" where
  "dec n [] = n"
| "dec n (c # cs) = dec (10 * n + (of_char c - 48)) cs"

text \<open>\<open>strconv.Atoi\<close>: an optional sign and decimal digits.\<close>

definition Atoi :: "string \<Rightarrow> int option" where
  "Atoi s =
     (let neg = (take 1 s = ''-'');
          ds = (if take 1 s = ''-'' \<or> take 1 s = ''+'' then drop 1 s else s)
      in if ds = [] \<or> \<not> list_all isDigit ds then None
         else Some (if neg then - int (dec 0 ds) else int (dec 0 ds)))"

text \<open>
  \<open>v.Get(keys...)\<close>: one step down per key, by name in an object (the first entry of
  that name) and by decimal index in an array; \<open>None\<close> is Go's \<open>nil\<close>.
\<close>

fun Get :: "'f Value \<Rightarrow> string list \<Rightarrow> 'f Value option" where
  "Get v [] = Some v"
| "Get (VObject kvs) (key # keys) =
     (case map_of kvs key of None \<Rightarrow> None | Some v \<Rightarrow> Get v keys)"
| "Get (VArray a) (key # keys) =
     (case Atoi key of
        None \<Rightarrow> None
      | Some n \<Rightarrow> if n < 0 \<or> int (length a) \<le> n then None else Get (a ! nat n) keys)"
| "Get v (key # keys) = None"

text \<open>\<open>v.GetFloat64(keys...)\<close>: zero unless the path leads to a number.\<close>

definition GetFloat64 :: "'f float64_ops \<Rightarrow> 'f Value \<Rightarrow> string list \<Rightarrow> 'f" where
  "GetFloat64 fl v keys =
     (case Get v keys of Some (VNumber x) \<Rightarrow> x | _ \<Rightarrow> f_const fl 0)"

subsection \<open>The world outside the handlers\<close>

text \<open>
  The libraries and the network, as the handlers use them. Each field is a function, so
  that a test double is a value of this record.
  \<^item> \<open>arith\<close>: the \<open>float64\<close> arithmetic.
  \<^item> \<open>NewIDs\<close>, \<open>NewSpanID\<close>: the random id generator of the tracer; the argument is the
    number of ids drawn so far.
  \<^item> \<open>url_Parse\<close>, \<open>http_NewRequest\<close>: the error, if any, of \<open>url.Parse\<close> on a base URL and
    of \<open>http.NewRequest\<close> (or \<open>NewRequestWithContext\<close>) on a verb, a URL and a query.
  \<^item> \<open>client_Do\<close>: \<open>client.Do\<close>, a transport error or a response.
  \<^item> \<open>json_Decode_CEP\<close>: \<open>json.NewDecoder(r.Body).Decode\<close> into a \<open>CEP\<close>.
  \<^item> \<open>json_Decode_Response\<close>: the same into a zero \<open>Response\<close>: what the struct holds
    afterwards, and the error, if any.
  \<^item> \<open>fastjson_Parse\<close>: the parser of fastjson.
\<close>

record 'f env =
  arith :: "'f float64_ops"
  NewIDs :: "nat \<Rightarrow> string \<times> string"
  NewSpanID :: "nat \<Rightarrow> string"
  url_Parse :: "string \<Rightarrow> error option"
  http_NewRequest :: "string \<Rightarrow> string \<Rightarrow> (string \<times> string) list \<Rightarrow> error option"
  client_Do :: "Request \<Rightarrow> error + http_Response"
  json_Decode_CEP :: "string \<Rightarrow> error + CEP"
  json_Decode_Response :: "error + string \<Rightarrow> 'f Response \<times> error option"
  fastjson_Parse :: "string \<Rightarrow> error + 'f Value"

text \<open>
  What a handler leaves behind besides its reply: the number of ids drawn from the
  generator, the spans started and the spans ended, in order, and the outbound requests
  handed to \<open>client.Do\<close>, in order.
\<close>

record state =
  drawn :: nat
  started :: "Span list"
  ended :: "Span list"
  calls :: "Request list"

text \<open>
  \<open>tracer.Start(ctx, name)\<close>, with the sampler \<open>AlwaysSample\<close> of \<open>initProvider\<close>: a child
  of the span context of \<open>ctx\<close>, in the same trace, or the root of a new trace when \<open>ctx\<close>
  carries none. The result is the new context, the span and the state.
\<close>

definition tracer_Start :: "'f env \<Rightarrow> state \<Rightarrow> Context \<Rightarrow> string \<Rightarrow> Context \<times> Span \<times> state" where
  "tracer_Start env st ctx name =
     (let sc = (case ctx of
                  None \<Rightarrow> \<lparr>TraceID = fst (NewIDs env (drawn st)),
                           SpanID = snd (NewIDs env (drawn st)), Sampled = True\<rparr>
                | Some psc \<Rightarrow> \<lparr>TraceID = TraceID psc,
                               SpanID = NewSpanID env (drawn st), Sampled = True\<rparr>);
          sp = \<lparr>Name = name, SpanCtx = sc, Parent = ctx\<rparr>
      in (Some sc, sp, st\<lparr>drawn := Suc (drawn st), started := started st @ [sp]\<rparr>))"

text \<open>\<open>span.End()\<close>.\<close>

definition span_End :: "Span \<Rightarrow> state \<Rightarrow> state" where
  "span_End sp st = st\<lparr>ended := ended st @ [sp]\<rparr>"

text \<open>The call \<open>client.Do(req)\<close>: the request is logged, the world answers.\<close>

definition Do :: "'f env \<Rightarrow> state \<Rightarrow> Request \<Rightarrow> (error + http_Response) \<times> state" where
  "Do env st req = (client_Do env req, st\<lparr>calls := calls st @ [req]\<rparr>)"

section \<open>The validator of the gateway\<close>

definition CEP_SIZE :: nat where
  "CEP_SIZE = 8"

text \<open>
  \<open>regexp.MustCompile(`\d+`).FindAllString(zip, -1)\<close>: the successive maximal runs of
  digits, left to right. The first argument is the run being read.
\<close>

fun FindAll :: "string \<Rightarrow> string \<Rightarrow> string list" where
  "FindAll cur [] = (if cur = [] then [] else [cur])"
| "FindAll cur (c # cs) =
     (if isDigit c then FindAll (cur @ [c]) cs
      else (if cur = [] then [] else [cur]) @ FindAll [] cs)"

definition FindAllString :: "string \<Rightarrow> string list" where
  "FindAllString zipc = FindAll [] zipc"

text \<open>\<open>strings.Join\<close> of the matches with the empty separator.\<close>

definition Join :: "string list \<Rightarrow> string" where
  "Join match = concat match"

text \<open>The value of \<open>zip\<close> after the third line of \<open>validateZip\<close>.\<close>

definition normalized :: "string \<Rightarrow> string" where
  "normalized zipc = Join (FindAllString zipc)"

text \<open>\<open>validateZip\<close> returns the pair \<open>(string, error)\<close>; \<open>None\<close> is Go's \<open>nil\<close> error.\<close>

definition validateZip :: "string \<Rightarrow> string \<times> error option" where
  "validateZip zipc =
     (let zipc' = normalized zipc
      in if length zipc' \<noteq> CEP_SIZE then ([], Some InvalidZipcode) else (zipc', None))"

section \<open>The gateway: service-a\<close>

text \<open>
  \<open>getTempFromLocal(client, zip, apiKey)\<close>. The handler's context is not among the
  arguments: the span of the outbound call is started from \<open>context.Background()\<close>,
  and it is the context of that span that is injected into the request.
  The test after \<open>client.Do\<close> is \<open>err != nil || res.StatusCode != http.StatusOK\<close>, and what
  is returned there is \<open>Response{}, err\<close>: the transport error in the first case, and in
  the second case \<open>err\<close> again, which is \<open>nil\<close>. The error of \<open>Decode\<close> is assigned and
  not read: the last line returns \<open>rr, nil\<close>. The result is the pair \<open>(Response, error)\<close>.
\<close>

definition getTempFromLocal ::
  "'f env \<Rightarrow> state \<Rightarrow> string \<Rightarrow> string \<Rightarrow> ('f Response \<times> error option) \<times> state" where
  "getTempFromLocal env st zipc apiKey =
     (let baseURL = ''http://service-b:8081''
      in case url_Parse env baseURL of
           Some err \<Rightarrow> ((Response_zero (arith env), Some err), st)
         | None \<Rightarrow>
             (let q = [(''zip'', zipc)]
              in case http_NewRequest env ''GET'' baseURL q of
                   Some err \<Rightarrow> ((Response_zero (arith env), Some err), st)
                 | None \<Rightarrow>
                     (let req = \<lparr>Method = ''GET'', URL = baseURL, Query = q,
                                 Header = Header_Add [] ''api_key'' apiKey, Body = []\<rparr>;
                          (ctx, sp, st1) =
                             tracer_Start env st Background ''outgoing request to service-b'';
                          req' = req\<lparr>Header := Inject ctx (Header req)\<rparr>;
                          (r, st2) = Do env st1 req'
                      in ((case r of
                             Inl err \<Rightarrow> (Response_zero (arith env), Some err)
                           | Inr res \<Rightarrow>
                               if StatusCode res \<noteq> StatusOK
                               then (Response_zero (arith env), None)
                               else (let (rr, err) = json_Decode_Response env (ResBody res)
                                     in (rr, None))),
                          span_End sp st2))))"

text \<open>
  The handler \<open>getTempFromZip\<close>, after its span is started: the reply written and the
  state. The context of an inbound request carries no span before \<open>Extract\<close>.
\<close>

definition getTempFromZip_body :: "'f env \<Rightarrow> state \<Rightarrow> Request \<Rightarrow> 'f reply \<times> state" where
  "getTempFromZip_body env st r =
     (if Method r \<noteq> ''POST''
      then (http_Error ''Method not allowed'' StatusMethodNotAllowed, st)
      else case json_Decode_CEP env (Body r) of
             Inl err \<Rightarrow> (http_Error (Error err) StatusBadRequest, st)
           | Inr zipc \<Rightarrow>
               (let apiKey = Header_Get (Header r) ''api_key''
                in if apiKey = []
                   then (http_Error ''api_key is required'' StatusBadRequest, st)
                   else (case validateZip (CEP zipc) of
                           (z, Some err) \<Rightarrow>
                             (http_Error (Error err) StatusUnprocessableEntity, st)
                         | (z, None) \<Rightarrow>
                             (case getTempFromLocal env st z apiKey of
                                ((res, Some err), st') \<Rightarrow>
                                  (http_Error (Error err) StatusBadRequest, st')
                              | ((res, None), st') \<Rightarrow> (write_JSON res, st')))))"

definition getTempFromZip :: "'f env \<Rightarrow> state \<Rightarrow> Request \<Rightarrow> 'f reply \<times> state" where
  "getTempFromZip env st r =
     (let carrier = Header r;
          ctx = Extract Background carrier;
          (ctx', sp, st1) = tracer_Start env st ctx ''service-a'';
          (w, st2) = getTempFromZip_body env st1 r
      in (w, span_End sp st2))"

section \<open>The resolver: service-b\<close>

text \<open>\<open>fastjson.GetString(data, keys...)\<close>: empty unless the path leads to a string.\<close>

definition GetString :: "'f env \<Rightarrow> string \<Rightarrow> string list \<Rightarrow> string" where
  "GetString env data keys =
     (case fastjson_Parse env data of
        Inl err \<Rightarrow> []
      | Inr v \<Rightarrow> (case Get v keys of Some (VString s) \<Rightarrow> s | _ \<Rightarrow> []))"

text \<open>
  \<open>getLocation(ctx, client, zip)\<close>. \<open>fmt.Sprintf\<close> puts \<open>zip\<close> into the URL as it is. The
  context only bounds the request's life: this call starts no span and injects nothing.
\<close>

definition getLocation ::
  "'f env \<Rightarrow> state \<Rightarrow> Context \<Rightarrow> string \<Rightarrow> (string \<times> error option) \<times> state" where
  "getLocation env st ctx zipc =
     (let URL' = ''http://viacep.com.br/ws/'' @ zipc @ ''/json/''
      in case http_NewRequest env ''GET'' URL' [] of
           Some err \<Rightarrow> (([], Some err), st)
         | None \<Rightarrow>
             (let req = \<lparr>Method = ''GET'', URL = URL', Query = [], Header = [], Body = []\<rparr>;
                  (r, st1) = Do env st req
              in ((case r of
                     Inl err \<Rightarrow> ([], Some err)
                   | Inr res \<Rightarrow>
                       (case ResBody res of
                          Inl err \<Rightarrow> ([], Some err)
                        | Inr bytes \<Rightarrow>
                            (let location = GetString env bytes [''localidade'']
                             in if location = [] then ([], Some CanNotFindZipcode)
                                else (location, None)))),
                  st1)))"

text \<open>
  The last lines of \<open>getTempFromAPI\<close>, from the parsed document \<open>v\<close> on: the three
  assignments to \<open>weather\<close> and the test of \<open>weather.TempC\<close>.
\<close>

definition weather_of :: "'f float64_ops \<Rightarrow> 'f Value \<Rightarrow> 'f Response \<times> error option" where
  "weather_of fl v =
     (let weather = Response_zero fl;
          weather = weather\<lparr>TempC := GetFloat64 fl v [''current'', ''temp_c'']\<rparr>;
          weather = weather\<lparr>TempF := GetFloat64 fl v [''current'', ''temp_f'']\<rparr>;
          weather = weather\<lparr>TempK := f_add fl (TempC weather) (f_const fl 273)\<rparr>
      in if f_eq fl (TempC weather) (f_const fl 0)
         then (Response_zero fl, Some InvalidAPIKey)
         else (weather, None))"

text \<open>\<open>getTempFromAPI(ctx, client, location, apiKey)\<close>.\<close>

definition getTempFromAPI ::
  "'f env \<Rightarrow> state \<Rightarrow> Context \<Rightarrow> string \<Rightarrow> string \<Rightarrow> ('f Response \<times> error option) \<times> state" where
  "getTempFromAPI env st ctx location apiKey =
     (let baseURL = ''http://api.weatherapi.com/v1/current.json''
      in case url_Parse env baseURL of
           Some err \<Rightarrow> ((Response_zero (arith env), Some err), st)
         | None \<Rightarrow>
             (let q = [(''q'', location), (''key'', apiKey)];
                  (ctx', sp, st1) = tracer_Start env st ctx ''outgoing request to weatherapi''
              in case http_NewRequest env ''GET'' baseURL q of
                   Some err \<Rightarrow> ((Response_zero (arith env), Some err), span_End sp st1)
                 | None \<Rightarrow>
                     (let req = \<lparr>Method = ''GET'', URL = baseURL, Query = q, Header = [],
                                 Body = []\<rparr>;
                          (r, st2) = Do env st1 req
                      in ((case r of
                             Inl err \<Rightarrow> (Response_zero (arith env), Some err)
                           | Inr res \<Rightarrow>
                               (case ResBody res of
                                  Inl err \<Rightarrow> (Response_zero (arith env), Some err)
                                | Inr bytes \<Rightarrow>
                                    (case fastjson_Parse env bytes of
                                       Inl err \<Rightarrow> (Response_zero (arith env), Some err)
                                     | Inr v \<Rightarrow> weather_of (arith env) v))),
                          span_End sp st2))))"

text \<open>The handler \<open>getTemp\<close>, after its span is started, and the handler.\<close>

definition getTemp_body :: "'f env \<Rightarrow> state \<Rightarrow> Context \<Rightarrow> Request \<Rightarrow> 'f reply \<times> state" where
  "getTemp_body env st ctx r =
     (if Method r \<noteq> ''GET''
      then (http_Error ''Method not allowed'' StatusMethodNotAllowed, st)
      else (let zipc = Query_Get (Query r) ''zip'';
                apiKey = Header_Get (Header r) ''api_key''
            in if apiKey = []
               then (http_Error ''api_key is required'' StatusBadRequest, st)
               else (case getLocation env st ctx zipc of
                       ((location, Some err), st') \<Rightarrow>
                         (http_Error (Error err) StatusBadRequest, st')
                     | ((location, None), st') \<Rightarrow>
                         (case getTempFromAPI env st' ctx location apiKey of
                            ((res, Some err), st'') \<Rightarrow>
                              (http_Error (Error err) StatusBadRequest, st'')
                          | ((res, None), st'') \<Rightarrow>
                              (write_JSON (res\<lparr>City := location\<rparr>), st'')))))"

definition getTemp :: "'f env \<Rightarrow> state \<Rightarrow> Request \<Rightarrow> 'f reply \<times> state" where
  "getTemp env st r =
     (let carrier = Header r;
          ctx = Extract Background carrier;
          (ctx', sp, st1) = tracer_Start env st ctx ''service-b'';
          (w, st2) = getTemp_body env st1 ctx' r
      in (w, span_End sp st2))"

section \<open>Observing a handler\<close>

text \<open>
  The requests that a handler, started in \<open>st\<close> and ended in \<open>st'\<close>, has handed to
  \<open>client.Do\<close>, and the spans it has started.
\<close>

definition new_calls :: "state \<Rightarrow> state \<Rightarrow> Request list" where
  "new_calls st st' = drop (length (calls st)) (calls st')"

definition new_spans :: "state \<Rightarrow> state \<Rightarrow> Span list" where
  "new_spans st st' = drop (length (started st)) (started st')"

text \<open>The state of a process that has handled nothing yet.\<close>

definition st0 :: state where
  "st0 = \<lparr>drawn = 0, started = [], ended = [], calls = []\<rparr>"

text \<open>
  The two values that the handler of the resolver reads from a request, and what
  \<open>getLocation\<close> and \<open>getTempFromAPI\<close> return: the state and the context they are given
  have no part in it.
\<close>

definition request_zip :: "Request \<Rightarrow> string" where
  "request_zip r = Query_Get (Query r) ''zip''"

definition request_key :: "Request \<Rightarrow> string" where
  "request_key r = Header_Get (Header r) ''api_key''"

definition resolution :: "'f env \<Rightarrow> string \<Rightarrow> string \<times> error option" where
  "resolution env zipc = fst (getLocation env st0 Background zipc)"

definition fetch :: "'f env \<Rightarrow> string \<Rightarrow> string \<Rightarrow> 'f Response \<times> error option" where
  "fetch env location apiKey = fst (getTempFromAPI env st0 Background location apiKey)"

text \<open>
  The request of \<open>getLocation\<close> for a code and the request of \<open>getTempFromAPI\<close> for a city
  and a key, as the two functions build them.
\<close>

definition directory_request :: "string \<Rightarrow> Request" where
  "directory_request zipc =
     \<lparr>Method = ''GET'', URL = ''http://viacep.com.br/ws/'' @ zipc @ ''/json/'', Query = [],
      Header = [], Body = []\<rparr>"

definition weather_request :: "string \<Rightarrow> string \<Rightarrow> Request" where
  "weather_request location apiKey =
     \<lparr>Method = ''GET'', URL = ''http://api.weatherapi.com/v1/current.json'',
      Query = [(''q'', location), (''key'', apiKey)], Header = [], Body = []\<rparr>"

section \<open>The formulas of the specification\<close>

text \<open>
  Fahrenheit as \<open>C*9/5+32\<close> and Kelvin as \<open>C+273\<close>, in the arithmetic of \<open>float64\<close>.
  These two follow the specification's words, to be compared with what
  \<open>getTempFromAPI\<close> stores.
\<close>

definition spec_Fahrenheit :: "'f float64_ops \<Rightarrow> 'f \<Rightarrow> 'f" where
  "spec_Fahrenheit fl c =
     f_add fl (f_quo fl (f_mul fl c (f_const fl 9)) (f_const fl 5)) (f_const fl 32)"

definition spec_Kelvin :: "'f float64_ops \<Rightarrow> 'f \<Rightarrow> 'f" where
  "spec_Kelvin fl c = f_add fl c (f_const fl 273)"

section \<open>Test doubles\<close>

text \<open>
  Arithmetic on the reals. On the numbers used below (\<open>0\<close>, \<open>25\<close>, \<open>76.5\<close>, \<open>273\<close> and
  what the formulas make of them) every operation of binary64 is exact, so that the
  two agree there.
\<close>

definition exact :: "real float64_ops" where
  "exact = \<lparr>f_const = of_int, f_add = (+), f_mul = (*), f_quo = (/), f_eq = (=)\<rparr>"

definition hexdigit :: "nat \<Rightarrow> char" where
  "hexdigit n = ''0123456789abcdef'' ! (n mod 16)"

definition quoted :: "string \<Rightarrow> string" where
  "quoted s = [CHR 0x22] @ s @ [CHR 0x22]"

text \<open>The body of a gateway request: a JSON object whose only field, \<open>cep\<close>, is the given text.\<close>

definition body_cep :: "string \<Rightarrow> string" where
  "body_cep c = ''{'' @ quoted ''cep'' @ '':'' @ quoted c @ ''}''"

text \<open>
  A world in which no peer answers: every \<open>client.Do\<close> ends in a transport error.
  \<open>http.NewRequest\<close> refuses a URL with an ASCII control character, as \<open>net/url\<close> does.
  The id generator counts in the last digit.
\<close>

definition world :: "real env" where
  "world =
     \<lparr>arith = exact,
      NewIDs = (\<lambda>n. (''4bf92f3577b34da6a3ce929d0e0e473'' @ [hexdigit n],
                      ''00f067aa0ba902b'' @ [hexdigit n])),
      NewSpanID = (\<lambda>n. ''53995c3f42cd8ad'' @ [hexdigit n]),
      url_Parse = (\<lambda>u. None),
      http_NewRequest = (\<lambda>m u q.
        if list_ex (\<lambda>c. (of_char c :: nat) < 32 \<or> (of_char c :: nat) = 127) u
        then Some (LibraryError ''net/url: invalid control character in URL'')
        else None),
      client_Do = (\<lambda>req. Inl (LibraryError ''dial tcp: connection refused'')),
      json_Decode_CEP = (\<lambda>b.
        if b = body_cep ''01001000'' then Inr \<lparr>CEP = ''01001000''\<rparr>
        else if b = body_cep ''1234'' then Inr \<lparr>CEP = ''1234''\<rparr>
        else Inl (LibraryError ''unexpected end of JSON input'')),
      json_Decode_Response = (\<lambda>b.
        (Response_zero exact, Some (LibraryError ''unexpected end of JSON input''))),
      fastjson_Parse = (\<lambda>s. Inl (LibraryError ''cannot parse JSON''))\<rparr>"

text \<open>The resolver answers \<open>400\<close> with the text \<open>can not find zipcode\<close>.\<close>

definition world_400 :: "real env" where
  "world_400 =
     world\<lparr>client_Do := (\<lambda>req.
       Inr \<lparr>StatusCode = 400, ResBody = Inr (''can not find zipcode'' @ [CHR 0x0A])\<rparr>)\<rparr>"

text \<open>
  The resolver answers \<open>200\<close> with a body cut short after the name of the field \<open>temp_C\<close>:
  the decoder has stored the city when it meets the end of the input.
\<close>

definition body_cut :: string where
  "body_cut = ''{'' @ quoted ''city'' @ '':'' @ quoted ''Sao Paulo'' @ '','' @ quoted ''temp_C'' @ '':''"

definition Response_cut :: "real Response" where
  "Response_cut = \<lparr>City = ''Sao Paulo'', TempC = 0, TempF = 0, TempK = 0\<rparr>"

definition world_cut :: "real env" where
  "world_cut =
     world\<lparr>client_Do := (\<lambda>req. Inr \<lparr>StatusCode = 200, ResBody = Inr body_cut\<rparr>),
           json_Decode_Response := (\<lambda>b.
             if b = Inr body_cut
             then (Response_cut, Some (LibraryError ''unexpected EOF''))
             else (Response_zero exact, Some (LibraryError ''unexpected end of JSON input'')))\<rparr>"

text \<open>Requests to the gateway.\<close>

definition gateway_request :: "string \<Rightarrow> Header \<Rightarrow> string \<Rightarrow> Request" where
  "gateway_request m h c = \<lparr>Method = m, URL = ''/'', Query = [], Header = h, Body = body_cep c\<rparr>"

text \<open>
  Two directories and three weather providers, as parsed documents: a directory that
  knows the code and one that answers with the field \<open>erro\<close> alone; a provider that reports
  25 degrees Celsius and 76.5 degrees Fahrenheit, one that reports 0 degrees Celsius,
  and one that answers with an error document, without \<open>current\<close>.
\<close>

definition doc_city :: "real Value" where
  "doc_city = VObject [(''cep'', VString ''01001-000''), (''localidade'', VString ''Sao Paulo'')]"

definition doc_erro :: "real Value" where
  "doc_erro = VObject [(''erro'', VTrue)]"

definition doc_weather :: "real Value" where
  "doc_weather =
     VObject [(''location'', VObject [(''name'', VString ''Sao Paulo'')]),
              (''current'', VObject [(''temp_c'', VNumber 25), (''temp_f'', VNumber 76.5)])]"

definition doc_freezing :: "real Value" where
  "doc_freezing =
     VObject [(''current'', VObject [(''temp_c'', VNumber 0), (''temp_f'', VNumber 32)])]"

definition doc_denied :: "real Value" where
  "doc_denied =
     VObject [(''error'', VObject [(''code'', VNumber 2006),
                                    (''message'', VString ''API key provided is invalid'')])]"

text \<open>
  A world for the resolver: the directory answers every request to its host with the
  first document and the weather provider with the second. The bodies are named, not
  spelled out: the parser of the double maps the name to the document. The resolver is
  a process of its own, with span ids of its own.
\<close>

definition world_b :: "real Value \<Rightarrow> real Value \<Rightarrow> real env" where
  "world_b directory provider =
     world\<lparr>NewSpanID := (\<lambda>n. ''a3ce929d0e0e473'' @ [hexdigit n]),
           client_Do := (\<lambda>req.
             if take 24 (URL req) = ''http://viacep.com.br/ws/''
             then Inr \<lparr>StatusCode = 200, ResBody = Inr ''directory''\<rparr>
             else if URL req = ''http://api.weatherapi.com/v1/current.json''
             then Inr \<lparr>StatusCode = 200, ResBody = Inr ''provider''\<rparr>
             else Inl (LibraryError ''dial tcp: no such host'')),
           fastjson_Parse := (\<lambda>s.
             if s = ''directory'' then Inr directory
             else if s = ''provider'' then Inr provider
             else Inl (LibraryError ''cannot parse JSON''))\<rparr>"

text \<open>Requests to the resolver.\<close>

definition resolver_request :: "string \<Rightarrow> Header \<Rightarrow> string \<Rightarrow> Request" where
  "resolver_request m h z = \<lparr>Method = m, URL = ''/'', Query = [(''zip'', z)], Header = h, Body = []\<rparr>"

text \<open>
  A traced request: the client of the gateway sends a \<open>traceparent\<close> of its own. The
  state in which the gateway ends, the request it has forwarded, and the state in which
  the resolver, a process with a tracer of its own, ends on receiving that request.
\<close>

definition traced_request :: Request where
  "traced_request =
     gateway_request ''POST''
       [(''api_key'', ''secret''),
        (''traceparent'', ''00-0af7651916cd43dd8448eb211c80319c-b7ad6b7169203331-01'')]
       ''01001000''"

definition traced_gateway :: state where
  "traced_gateway = snd (getTempFromZip world st0 traced_request)"

definition traced_forwarded :: Request where
  "traced_forwarded = last (calls traced_gateway)"

definition traced_resolver :: state where
  "traced_resolver = snd (getTemp (world_b doc_city doc_weather) st0 traced_forwarded)"

section \<open>Properties of the validator\<close>

lemma concat_FindAll: "concat (FindAll cur zipc) = cur @ filter isDigit zipc"
  by (induction zipc arbitrary: cur) auto

lemma normalized_filter: "normalized zipc = filter isDigit zipc"
  by (simp add: normalized_def Join_def FindAllString_def concat_FindAll)

text \<open>
  Claim C3. For every input string, the string that \<open>validateZip\<close> builds holds only digit
  characters and is as long as the input has digit characters; the input is accepted
  (a \<open>nil\<close> error) exactly when that count is 8, and what is then returned is that string.
\<close>

theorem validateZip_digits:
  "filter isDigit (normalized zipc) = normalized zipc
   \<and> length (normalized zipc) = length (filter isDigit zipc)
   \<and> (snd (validateZip zipc) = None) = (length (filter isDigit zipc) = 8)
   \<and> validateZip zipc =
       (if length (filter isDigit zipc) = 8 then (normalized zipc, None)
        else ([], Some InvalidZipcode))"
  by (simp add: validateZip_def normalized_filter CEP_SIZE_def Let_def)

theorem validateZip_digits_witness:
  "validateZip ''12345-678x'' = (''12345678'', None)
   \<and> validateZip ''1234'' = ([], Some InvalidZipcode)
   \<and> length (filter isDigit ''12345-678x'') = 8"
  using validateZip_digits [of "''12345-678x''"] validateZip_digits [of "''1234''"]
  by (simp add: normalized_filter isDigit_def)

section \<open>What the handlers leave in the state\<close>

lemmas status_defs =
  StatusOK_def StatusBadRequest_def StatusMethodNotAllowed_def StatusUnprocessableEntity_def

lemma calls_tracer_Start: "calls (snd (snd (tracer_Start env st ctx n))) = calls st"
  by (simp add: tracer_Start_def Let_def)

lemma calls_span_End: "calls (span_End sp st) = calls st"
  by (simp add: span_End_def)

lemma fst_Do: "fst (Do env st req) = client_Do env req"
  by (simp add: Do_def)

lemma calls_Do: "calls (snd (Do env st req)) = calls st @ [req]"
  by (simp add: Do_def)

lemma snd_Do: "snd (Do env st req) = st\<lparr>calls := calls st @ [req]\<rparr>"
  by (simp add: Do_def)

lemma Status_http_Error: "Status (http_Error m c) = c"
  by (simp add: http_Error_def)

lemma Status_write_JSON: "Status (write_JSON res) = StatusOK"
  by (simp add: write_JSON_def)

subsection \<open>The gateway\<close>

text \<open>
  When \<open>getTempFromLocal\<close> has handed a request to \<open>client.Do\<close>, its result is decided by
  the answer alone.
\<close>

lemma getTempFromLocal_sent:
  assumes "calls (snd (getTempFromLocal env st z k)) = calls st @ [req]"
  shows "fst (getTempFromLocal env st z k) =
          (case client_Do env req of
             Inl err \<Rightarrow> (Response_zero (arith env), Some err)
           | Inr res \<Rightarrow>
               if StatusCode res \<noteq> StatusOK then (Response_zero (arith env), None)
               else (fst (json_Decode_Response env (ResBody res)), None))"
  using assms
  by (auto simp add: getTempFromLocal_def Let_def split_def calls_tracer_Start calls_span_End
      fst_Do calls_Do split: option.splits sum.splits)

lemma getTempFromZip_body_sent:
  assumes "calls (snd (getTempFromZip_body env st r)) = calls st @ [req]"
  shows "\<exists>c z. Method r = ''POST'' \<and> json_Decode_CEP env (Body r) = Inr c
          \<and> Header_Get (Header r) ''api_key'' \<noteq> []
          \<and> validateZip (CEP c) = (z, None)
          \<and> calls (snd (getTempFromLocal env st z (Header_Get (Header r) ''api_key'')))
              = calls st @ [req]
          \<and> getTempFromZip_body env st r =
              (case getTempFromLocal env st z (Header_Get (Header r) ''api_key'') of
                 ((res, Some err), st') \<Rightarrow> (http_Error (Error err) StatusBadRequest, st')
               | ((res, None), st') \<Rightarrow> (write_JSON res, st'))"
  using assms
  by (auto simp add: getTempFromZip_body_def Let_def
      split: if_splits option.splits sum.splits prod.splits)

lemma fst_getTempFromZip:
  "fst (getTempFromZip env st r) =
     fst (getTempFromZip_body env
            (snd (snd (tracer_Start env st (Extract Background (Header r)) ''service-a''))) r)"
  by (simp add: getTempFromZip_def Let_def split_def)

lemma calls_getTempFromZip:
  "calls (snd (getTempFromZip env st r)) =
     calls (snd (getTempFromZip_body env
            (snd (snd (tracer_Start env st (Extract Background (Header r)) ''service-a''))) r))"
  by (simp add: getTempFromZip_def Let_def split_def calls_span_End)

lemma getTempFromZip_body_no_key:
  assumes "Header_Get (Header r) ''api_key'' = []"
  shows "snd (getTempFromZip_body env st r) = st
     \<and> Status (fst (getTempFromZip_body env st r)) =
         (if Method r = ''POST'' then StatusBadRequest else StatusMethodNotAllowed)"
  using assms
  by (simp add: getTempFromZip_body_def Status_http_Error split: sum.splits)

text \<open>
  The reply of the gateway, once it has forwarded a request, as a function of the answer:
  a transport error gives \<open>400\<close>; an answer that is not a \<open>200\<close> gives \<open>200\<close> with the
  zero \<open>Response\<close>; a \<open>200\<close> gives \<open>200\<close> with whatever the decoder has left.
\<close>

lemma getTempFromZip_sent:
  assumes "calls (snd (getTempFromZip env st r)) = calls st @ [req]"
  shows "fst (getTempFromZip env st r) =
           (case client_Do env req of
              Inl err \<Rightarrow> http_Error (Error err) StatusBadRequest
            | Inr res \<Rightarrow>
                if StatusCode res \<noteq> StatusOK then write_JSON (Response_zero (arith env))
                else write_JSON (fst (json_Decode_Response env (ResBody res))))"
proof -
  let ?st1 = "snd (snd (tracer_Start env st (Extract Background (Header r)) ''service-a''))"
  let ?k = "Header_Get (Header r) ''api_key''"
  from assms have "calls (snd (getTempFromZip_body env ?st1 r)) = calls ?st1 @ [req]"
    by (simp add: calls_getTempFromZip calls_tracer_Start)
  from getTempFromZip_body_sent [OF this] obtain c z where
    sent: "calls (snd (getTempFromLocal env ?st1 z ?k)) = calls ?st1 @ [req]"
    and body: "getTempFromZip_body env ?st1 r =
              (case getTempFromLocal env ?st1 z ?k of
                 ((res, Some err), st') \<Rightarrow> (http_Error (Error err) StatusBadRequest, st')
               | ((res, None), st') \<Rightarrow> (write_JSON res, st'))"
    by blast
  obtain res e s where l: "getTempFromLocal env ?st1 z ?k = ((res, e), s)"
    by (metis surj_pair)
  with getTempFromLocal_sent [OF sent] body show ?thesis
    by (auto simp add: fst_getTempFromZip split: sum.splits if_splits)
qed

text \<open>
  The span of the outbound call is the root of a trace of its own, whatever the inbound
  request carries: its trace id is the next draw of the generator.
\<close>

lemma outgoing_span_is_root:
  assumes "sp \<in> set (new_spans st (snd (getTempFromZip env st r)))"
    and "Name sp = ''outgoing request to service-b''"
  shows "Parent sp = None \<and> TraceID (SpanCtx sp) = fst (NewIDs env (Suc (drawn st)))"
  using assms
  by (auto simp add: new_spans_def getTempFromZip_def getTempFromZip_body_def getTempFromLocal_def
      Let_def split_def span_End_def tracer_Start_def Do_def Background_def
      split: if_splits sum.splits option.splits prod.splits)

subsection \<open>The resolver\<close>

text \<open>
  The result of \<open>getLocation\<close> does not depend on the state or on the context, and the
  function hands at most one request to \<open>client.Do\<close>: the one for the directory.
\<close>

lemma getLocation_fst: "fst (getLocation env st ctx z) = fst (getLocation env st' ctx' z)"
  by (simp add: getLocation_def Let_def split_def fst_Do split: option.splits)

lemma getLocation_snd:
  "snd (getLocation env st ctx z) = st \<or>
   snd (getLocation env st ctx z) =
     st\<lparr>calls := calls st @
        [\<lparr>Method = ''GET'', URL = ''http://viacep.com.br/ws/'' @ z @ ''/json/'', Query = [],
          Header = [], Body = []\<rparr>]\<rparr>"
  by (simp add: getLocation_def Let_def split_def snd_Do split: option.splits)

lemma getLocation_ok:
  assumes "fst (getLocation env st ctx z) = (location, None)"
  shows "location \<noteq> [] \<and> snd (getLocation env st ctx z) =
     st\<lparr>calls := calls st @
        [\<lparr>Method = ''GET'', URL = ''http://viacep.com.br/ws/'' @ z @ ''/json/'', Query = [],
          Header = [], Body = []\<rparr>]\<rparr>"
  using assms
  by (auto simp add: getLocation_def Let_def split_def snd_Do fst_Do
      split: option.splits sum.splits if_splits)

lemma weather_of_ok:
  assumes "weather_of fl v = (w, None)"
  shows "TempC w = GetFloat64 fl v [''current'', ''temp_c'']
       \<and> TempF w = GetFloat64 fl v [''current'', ''temp_f'']
       \<and> TempK w = f_add fl (TempC w) (f_const fl 273) \<and> City w = []
       \<and> \<not> f_eq fl (TempC w) (f_const fl 0)"
  using assms by (auto simp add: weather_of_def Let_def Response_zero_def split: if_splits)

lemma getTempFromAPI_fst:
  "fst (getTempFromAPI env st ctx l k) = fst (getTempFromAPI env st' ctx' l k)"
  by (simp add: getTempFromAPI_def Let_def split_def fst_Do split: option.splits)

lemma getTempFromAPI_ok:
  assumes "fst (getTempFromAPI env st ctx l k) = (w, None)"
  shows "\<exists>res bytes v.
           client_Do env \<lparr>Method = ''GET'', URL = ''http://api.weatherapi.com/v1/current.json'',
                           Query = [(''q'', l), (''key'', k)], Header = [], Body = []\<rparr> = Inr res
           \<and> ResBody res = Inr bytes \<and> fastjson_Parse env bytes = Inr v
           \<and> weather_of (arith env) v = (w, None)"
  using assms
  by (auto simp add: getTempFromAPI_def Let_def split_def fst_Do split: option.splits sum.splits)

lemma getTempFromAPI_calls:
  "calls (snd (getTempFromAPI env st ctx l k)) = calls st \<or>
   calls (snd (getTempFromAPI env st ctx l k)) = calls st @
     [\<lparr>Method = ''GET'', URL = ''http://api.weatherapi.com/v1/current.json'',
       Query = [(''q'', l), (''key'', k)], Header = [], Body = []\<rparr>]"
  by (simp add: getTempFromAPI_def Let_def split_def calls_Do calls_span_End calls_tracer_Start
      split: option.splits)

lemma getTempFromAPI_sent:
  assumes "calls (snd (getTempFromAPI env st ctx l k)) = calls st @ [req]"
  shows "fst (getTempFromAPI env st ctx l k) =
     (case client_Do env req of
        Inl err \<Rightarrow> (Response_zero (arith env), Some err)
      | Inr res \<Rightarrow>
         (case ResBody res of
            Inl err \<Rightarrow> (Response_zero (arith env), Some err)
          | Inr bytes \<Rightarrow>
             (case fastjson_Parse env bytes of
                Inl err \<Rightarrow> (Response_zero (arith env), Some err)
              | Inr v \<Rightarrow> weather_of (arith env) v)))"
  using assms
  by (auto simp add: getTempFromAPI_def Let_def split_def calls_Do fst_Do calls_span_End
      calls_tracer_Start split: option.splits)

lemma fst_getTemp:
  "fst (getTemp env st r) =
     fst (getTemp_body env
            (snd (snd (tracer_Start env st (Extract Background (Header r)) ''service-b'')))
            (fst (tracer_Start env st (Extract Background (Header r)) ''service-b'')) r)"
  by (simp add: getTemp_def Let_def split_def)

lemma calls_getTemp:
  "calls (snd (getTemp env st r)) =
     calls (snd (getTemp_body env
            (snd (snd (tracer_Start env st (Extract Background (Header r)) ''service-b'')))
            (fst (tracer_Start env st (Extract Background (Header r)) ''service-b'')) r))"
  by (simp add: getTemp_def Let_def split_def calls_span_End)

lemma getTemp_body_no_key:
  assumes "Header_Get (Header r) ''api_key'' = []"
  shows "snd (getTemp_body env st ctx r) = st
     \<and> Status (fst (getTemp_body env st ctx r)) =
         (if Method r = ''GET'' then StatusBadRequest else StatusMethodNotAllowed)"
  using assms
  by (simp add: getTemp_body_def Status_http_Error)

lemma getTempFromAPI_ok_calls:
  assumes "fst (getTempFromAPI env st ctx l k) = (w, None)"
  shows "calls (snd (getTempFromAPI env st ctx l k)) = calls st @ [weather_request l k]"
  using assms
  by (auto simp add: getTempFromAPI_def Let_def split_def calls_Do fst_Do calls_span_End
      calls_tracer_Start weather_request_def split: option.splits)

text \<open>The five ways in which the handler of the resolver ends.\<close>

lemma getTemp_body_cases:
  fixes env :: "'f env"
  obtains
    (not_get) "Method r \<noteq> ''GET''"
      "getTemp_body env st ctx r = (http_Error ''Method not allowed'' StatusMethodNotAllowed, st)"
  | (key) "Method r = ''GET''" "Header_Get (Header r) ''api_key'' = []"
      "getTemp_body env st ctx r = (http_Error ''api_key is required'' StatusBadRequest, st)"
  | (unresolved) loc err st' where
      "Method r = ''GET''" "Header_Get (Header r) ''api_key'' \<noteq> []"
      "getLocation env st ctx (Query_Get (Query r) ''zip'') = ((loc, Some err), st')"
      "getTemp_body env st ctx r = (http_Error (Error err) StatusBadRequest, st')"
  | (unfetched) location w err st' st'' where
      "Method r = ''GET''" "Header_Get (Header r) ''api_key'' \<noteq> []"
      "getLocation env st ctx (Query_Get (Query r) ''zip'') = ((location, None), st')"
      "getTempFromAPI env st' ctx location (Header_Get (Header r) ''api_key'')
         = ((w, Some err), st'')"
      "getTemp_body env st ctx r = (http_Error (Error err) StatusBadRequest, st'')"
  | (aggregated) location w st' st'' where
      "Method r = ''GET''" "Header_Get (Header r) ''api_key'' \<noteq> []"
      "getLocation env st ctx (Query_Get (Query r) ''zip'') = ((location, None), st')"
      "getTempFromAPI env st' ctx location (Header_Get (Header r) ''api_key'')
         = ((w, None), st'')"
      "getTemp_body env st ctx r = (write_JSON (w\<lparr>City := location\<rparr>), st'')"
proof (cases "Method r = ''GET''")
  case False
  then show ?thesis using not_get by (simp add: getTemp_body_def)
next
  case get: True
  show ?thesis
  proof (cases "Header_Get (Header r) ''api_key'' = []")
    case True
    with get show ?thesis using key by (simp add: getTemp_body_def)
  next
    case k: False
    obtain loc e st' where
      l: "getLocation env st ctx (Query_Get (Query r) ''zip'') = ((loc, e), st')"
      by (metis surj_pair)
    show ?thesis
    proof (cases e)
      case (Some err)
      with get k l show ?thesis using unresolved [of loc err st']
        by (simp add: getTemp_body_def)
    next
      case None
      obtain w e' st'' where
        f: "getTempFromAPI env st' ctx loc (Header_Get (Header r) ''api_key'') = ((w, e'), st'')"
        by (metis surj_pair)
      show ?thesis
      proof (cases e')
        case (Some err)
        with get k l None f show ?thesis using unfetched [of loc st' w err st'']
          by (simp add: getTemp_body_def)
      next
        case n: None
        with get k l None f show ?thesis using aggregated [of loc st' w st'']
          by (simp add: getTemp_body_def)
      qed
    qed
  qed
qed


lemma resolution_eq: "fst (getLocation env st ctx z) = resolution env z"
  unfolding resolution_def by (rule getLocation_fst)

lemma fetch_eq: "fst (getTempFromAPI env st ctx l k) = fetch env l k"
  unfolding fetch_def by (rule getTempFromAPI_fst)

lemma started_getLocation: "started (snd (getLocation env st ctx z)) = started st"
  using getLocation_snd [of env st ctx z] by auto

lemma calls_getLocation_ok:
  assumes "getLocation env st ctx z = ((location, None), st')"
  shows "calls st' = calls st @ [directory_request z]"
  using getLocation_ok [of env st ctx z location] assms
  by (simp add: directory_request_def)

lemma calls_getLocation:
  assumes "getLocation env st ctx z = (x, st')"
  shows "calls st' =
          (if http_NewRequest env ''GET'' (URL (directory_request z)) [] = None
           then calls st @ [directory_request z] else calls st)"
  using assms
  by (auto simp add: getLocation_def Let_def split_def calls_Do directory_request_def
      split: option.splits)

lemma calls_getTempFromAPI:
  assumes "getTempFromAPI env st ctx l k = (x, st')"
  shows "calls st' = calls st \<or> calls st' = calls st @ [weather_request l k]"
  using getTempFromAPI_calls [of env st ctx l k] assms
  by (auto simp add: weather_request_def)

lemma new_calls_getTemp:
  "new_calls st (snd (getTemp env st r)) =
     new_calls (snd (snd (tracer_Start env st (Extract Background (Header r)) ''service-b'')))
       (snd (getTemp_body env
            (snd (snd (tracer_Start env st (Extract Background (Header r)) ''service-b'')))
            (fst (tracer_Start env st (Extract Background (Header r)) ''service-b'')) r))"
  by (simp add: new_calls_def calls_getTemp calls_tracer_Start)

lemma new_spans_getTemp:
  assumes "started (snd (getTemp_body env
            (snd (snd (tracer_Start env st (Extract Background (Header r)) ''service-b'')))
            (fst (tracer_Start env st (Extract Background (Header r)) ''service-b'')) r))
           = started (snd (snd (tracer_Start env st (Extract Background (Header r)) ''service-b'')))"
  shows "map Name (new_spans st (snd (getTemp env st r))) = [''service-b'']"
  using assms
  by (simp add: new_spans_def getTemp_def Let_def split_def span_End_def tracer_Start_def)

lemma new_calls_same: "new_calls st st = []"
  by (simp add: new_calls_def)

text \<open>The outcomes of the resolver's handler, seen from outside.\<close>

lemma getTemp_outcomes:
  fixes env :: "'f env"
  obtains
    (not_get) "Method r \<noteq> ''GET''"
      "fst (getTemp env st r) = http_Error ''Method not allowed'' StatusMethodNotAllowed"
      "new_calls st (snd (getTemp env st r)) = []"
      "map Name (new_spans st (snd (getTemp env st r))) = [''service-b'']"
  | (key) "Method r = ''GET''" "request_key r = []"
      "fst (getTemp env st r) = http_Error ''api_key is required'' StatusBadRequest"
      "new_calls st (snd (getTemp env st r)) = []"
      "map Name (new_spans st (snd (getTemp env st r))) = [''service-b'']"
  | (unresolved) err where
      "Method r = ''GET''" "request_key r \<noteq> []"
      "snd (resolution env (request_zip r)) = Some err"
      "fst (getTemp env st r) = http_Error (Error err) StatusBadRequest"
      "new_calls st (snd (getTemp env st r)) =
        (if http_NewRequest env ''GET'' (URL (directory_request (request_zip r))) [] = None
         then [directory_request (request_zip r)] else [])"
      "map Name (new_spans st (snd (getTemp env st r))) = [''service-b'']"
  | (unfetched) location err where
      "Method r = ''GET''" "request_key r \<noteq> []"
      "resolution env (request_zip r) = (location, None)"
      "snd (fetch env location (request_key r)) = Some err"
      "fst (getTemp env st r) = http_Error (Error err) StatusBadRequest"
      "new_calls st (snd (getTemp env st r)) = [directory_request (request_zip r)] \<or>
       new_calls st (snd (getTemp env st r)) =
         [directory_request (request_zip r), weather_request location (request_key r)]"
  | (aggregated) location w where
      "Method r = ''GET''" "request_key r \<noteq> []"
      "resolution env (request_zip r) = (location, None)"
      "fetch env location (request_key r) = (w, None)"
      "fst (getTemp env st r) = write_JSON (w\<lparr>City := location\<rparr>)"
      "new_calls st (snd (getTemp env st r)) =
         [directory_request (request_zip r), weather_request location (request_key r)]"
proof -
  let ?t = "tracer_Start env st (Extract Background (Header r)) ''service-b''"
  let ?st1 = "snd (snd ?t)" and ?c1 = "fst ?t"
  show ?thesis
  proof (cases rule: getTemp_body_cases [where env = env and r = r and st = ?st1 and ctx = ?c1])
    case not_get
    have 1: "fst (getTemp env st r) = http_Error ''Method not allowed'' StatusMethodNotAllowed"
      using not_get by (simp add: fst_getTemp)
    have 2: "new_calls st (snd (getTemp env st r)) = []"
      using not_get by (simp add: new_calls_getTemp new_calls_same)
    have 3: "map Name (new_spans st (snd (getTemp env st r))) = [''service-b'']"
      using not_get by (intro new_spans_getTemp) simp
    show ?thesis
      by (rule that(1) [OF not_get(1) 1 2 3])
  next
    case key
    have k: "request_key r = []"
      using key(2) by (simp add: request_key_def)
    have 1: "fst (getTemp env st r) = http_Error ''api_key is required'' StatusBadRequest"
      using key by (simp add: fst_getTemp)
    have 2: "new_calls st (snd (getTemp env st r)) = []"
      using key by (simp add: new_calls_getTemp new_calls_same)
    have 3: "map Name (new_spans st (snd (getTemp env st r))) = [''service-b'']"
      using key by (intro new_spans_getTemp) simp
    show ?thesis
      by (rule that(2) [OF key(1) k 1 2 3])
  next
    case (unresolved loc err st')
    have k: "request_key r \<noteq> []"
      using unresolved(2) by (simp add: request_key_def)
    have "fst (getLocation env ?st1 ?c1 (Query_Get (Query r) ''zip'')) = (loc, Some err)"
      using unresolved(3) by simp
    then have 1: "snd (resolution env (request_zip r)) = Some err"
      by (simp add: resolution_eq request_zip_def)
    have 2: "fst (getTemp env st r) = http_Error (Error err) StatusBadRequest"
      using unresolved(4) by (simp add: fst_getTemp)
    have "new_calls ?st1 st' =
        (if http_NewRequest env ''GET'' (URL (directory_request (request_zip r))) [] = None
         then [directory_request (request_zip r)] else [])"
      using calls_getLocation [OF unresolved(3)]
      by (simp add: new_calls_def request_zip_def)
    then have 3: "new_calls st (snd (getTemp env st r)) =
        (if http_NewRequest env ''GET'' (URL (directory_request (request_zip r))) [] = None
         then [directory_request (request_zip r)] else [])"
      using unresolved(4) by (simp add: new_calls_getTemp)
    have "started st' = started ?st1"
      using started_getLocation [of env ?st1 ?c1 "Query_Get (Query r) ''zip''"] unresolved(3)
      by simp
    then have 4: "map Name (new_spans st (snd (getTemp env st r))) = [''service-b'']"
      using unresolved(4) by (intro new_spans_getTemp) simp
    show ?thesis
      by (rule that(3) [OF unresolved(1) k 1 2 3 4])
  next
    case (unfetched location w err st' st'')
    have k: "request_key r \<noteq> []"
      using unfetched(2) by (simp add: request_key_def)
    have "fst (getLocation env ?st1 ?c1 (Query_Get (Query r) ''zip'')) = (location, None)"
      using unfetched(3) by simp
    then have 1: "resolution env (request_zip r) = (location, None)"
      by (simp add: resolution_eq request_zip_def)
    have "fst (getTempFromAPI env st' ?c1 location (Header_Get (Header r) ''api_key''))
            = (w, Some err)"
      using unfetched(4) by simp
    then have 2: "snd (fetch env location (request_key r)) = Some err"
      by (simp add: fetch_eq request_key_def)
    have 3: "fst (getTemp env st r) = http_Error (Error err) StatusBadRequest"
      using unfetched(5) by (simp add: fst_getTemp)
    have "new_calls ?st1 st'' = [directory_request (request_zip r)] \<or>
          new_calls ?st1 st'' =
            [directory_request (request_zip r), weather_request location (request_key r)]"
      using calls_getLocation_ok [OF unfetched(3)] calls_getTempFromAPI [OF unfetched(4)]
      by (auto simp add: new_calls_def request_zip_def request_key_def)
    then have 4: "new_calls st (snd (getTemp env st r)) = [directory_request (request_zip r)] \<or>
       new_calls st (snd (getTemp env st r)) =
         [directory_request (request_zip r), weather_request location (request_key r)]"
      using unfetched(5) by (simp add: new_calls_getTemp)
    show ?thesis
      by (rule that(4) [OF unfetched(1) k 1 2 3 4])
  next
    case (aggregated location w st' st'')
    have k: "request_key r \<noteq> []"
      using aggregated(2) by (simp add: request_key_def)
    have "fst (getLocation env ?st1 ?c1 (Query_Get (Query r) ''zip'')) = (location, None)"
      using aggregated(3) by simp
    then have 1: "resolution env (request_zip r) = (location, None)"
      by (simp add: resolution_eq request_zip_def)
    have f: "fst (getTempFromAPI env st' ?c1 location (Header_Get (Header r) ''api_key''))
               = (w, None)"
      using aggregated(4) by simp
    then have 2: "fetch env location (request_key r) = (w, None)"
      by (simp add: fetch_eq request_key_def)
    have 3: "fst (getTemp env st r) = write_JSON (w\<lparr>City := location\<rparr>)"
      using aggregated(5) by (simp add: fst_getTemp)
    from getTempFromAPI_ok_calls [OF f] aggregated(4) calls_getLocation_ok [OF aggregated(3)]
    have "new_calls ?st1 st'' =
            [directory_request (request_zip r), weather_request location (request_key r)]"
      by (simp add: new_calls_def request_zip_def request_key_def)
    then have 4: "new_calls st (snd (getTemp env st r)) =
         [directory_request (request_zip r), weather_request location (request_key r)]"
      using aggregated(5) by (simp add: new_calls_getTemp)
    show ?thesis
      by (rule that(5) [OF aggregated(1) k 1 2 3 4])
  qed
qed

subsection \<open>Evaluating the test doubles\<close>

lemma validateZip_sample: "validateZip ''01001000'' = (''01001000'', None)"
  by (simp add: validateZip_def normalized_filter isDigit_def CEP_SIZE_def)

lemmas double_defs =
  world_def world_400_def world_cut_def world_b_def st0_def exact_def gateway_request_def
  resolver_request_def body_cep_def quoted_def hexdigit_def

section \<open>Properties of the gateway\<close>

text \<open>
  Claim C2. A gateway request whose forwarded call fails should end in the gateway's own
  \<open>400\<close> and never in a \<open>200\<close>. The code does so for a transport error. For an answer
  of the resolver that is not a \<open>200\<close> it does not: here the resolver answers \<open>400\<close> to a
  well-formed request (\<open>POST\<close>, the code \<open>01001000\<close>, \<open>api_key: secret\<close>), and the
  gateway replies \<open>200\<close> with the zero \<open>Response\<close>, whose city is empty.
\<close>

theorem getTempFromZip_downstream_400:
  "fst (getTempFromZip world_400 st0 (gateway_request ''POST'' [(''api_key'', ''secret'')] ''01001000''))
     = \<lparr>Status = 200, ContentType = ''application/json'',
        Payload = JSON \<lparr>City = [], TempC = 0, TempF = 0, TempK = 0\<rparr>\<rparr>"
  by code_simp

text \<open>
  Claim C5, as amended. A request without \<open>api_key\<close>, or with an empty one, makes neither
  service hand any request to \<open>client.Do\<close>. The status is \<open>400\<close> when the verb is the
  service's own (\<open>POST\<close> for the gateway, \<open>GET\<close> for the resolver) and \<open>405\<close> otherwise:
  both handlers test the verb first.
\<close>

theorem missing_api_key_no_outbound_call:
  assumes "Header_Get (Header r) ''api_key'' = []"
  shows "calls (snd (getTempFromZip env st r)) = calls st
     \<and> Status (fst (getTempFromZip env st r)) =
         (if Method r = ''POST'' then StatusBadRequest else StatusMethodNotAllowed)
     \<and> calls (snd (getTemp env st r)) = calls st
     \<and> Status (fst (getTemp env st r)) =
         (if Method r = ''GET'' then StatusBadRequest else StatusMethodNotAllowed)"
proof -
  note a = getTempFromZip_body_no_key [OF assms] and b = getTemp_body_no_key [OF assms]
  have "calls (snd (getTempFromZip env st r)) = calls st"
    by (simp add: calls_getTempFromZip a calls_tracer_Start)
  moreover have "calls (snd (getTemp env st r)) = calls st"
    by (simp add: calls_getTemp b calls_tracer_Start)
  ultimately show ?thesis
    by (simp add: fst_getTempFromZip fst_getTemp a b)
qed

theorem missing_api_key_no_outbound_call_witness:
  "Header_Get (Header (gateway_request ''POST'' [] ''01001000'')) ''api_key'' = []
   \<and> calls (snd (getTempFromZip world st0 (gateway_request ''POST'' [] ''01001000''))) = []
   \<and> Status (fst (getTempFromZip world st0 (gateway_request ''POST'' [] ''01001000''))) = 400
   \<and> Header_Get (Header (resolver_request ''GET'' [] ''01001000'')) ''api_key'' = []
   \<and> calls (snd (getTemp world st0 (resolver_request ''GET'' [] ''01001000''))) = []
   \<and> Status (fst (getTemp world st0 (resolver_request ''GET'' [] ''01001000''))) = 400"
proof -
  have a: "Header_Get (Header (gateway_request ''POST'' [] ''01001000'')) ''api_key'' = []"
    by (simp add: gateway_request_def Header_Get_def)
  have b: "Header_Get (Header (resolver_request ''GET'' [] ''01001000'')) ''api_key'' = []"
    by (simp add: resolver_request_def Header_Get_def)
  from missing_api_key_no_outbound_call [OF a, of world st0]
       missing_api_key_no_outbound_call [OF b, of world st0] a b
  show ?thesis
    by (simp add: gateway_request_def resolver_request_def st0_def status_defs)
qed

text \<open>
  The claim as first stated promises \<open>400\<close> for every request without \<open>api_key\<close>; a
  \<open>GET\<close> to the gateway and a \<open>POST\<close> to the resolver, both without the header, get
  \<open>405\<close>.
\<close>

theorem missing_api_key_counterexample:
  "Header_Get (Header (gateway_request ''GET'' [] ''01001000'')) ''api_key'' = []
   \<and> Status (fst (getTempFromZip world st0 (gateway_request ''GET'' [] ''01001000''))) = 405
   \<and> Header_Get (Header (resolver_request ''POST'' [] ''01001000'')) ''api_key'' = []
   \<and> Status (fst (getTemp world st0 (resolver_request ''POST'' [] ''01001000''))) = 405"
  by (simp add: fst_getTempFromZip fst_getTemp getTempFromZip_body_def getTemp_body_def
      gateway_request_def resolver_request_def Header_Get_def Status_http_Error status_defs)

text \<open>
  Claim C7, as amended. A \<open>POST\<close> to the gateway whose body decodes, whose \<open>api_key\<close> is
  not empty and whose postal code does not have exactly 8 digits is answered \<open>422\<close> with
  the text \<open>invalid zipcode\<close>, and nothing is handed to \<open>client.Do\<close>.
\<close>

theorem invalid_zip_unprocessable:
  assumes "Method r = ''POST''"
    and "json_Decode_CEP env (Body r) = Inr c"
    and "Header_Get (Header r) ''api_key'' \<noteq> []"
    and "length (filter isDigit (CEP c)) \<noteq> 8"
  shows "fst (getTempFromZip env st r) =
           http_Error ''invalid zipcode'' StatusUnprocessableEntity
     \<and> calls (snd (getTempFromZip env st r)) = calls st"
  using assms
  by (simp add: fst_getTempFromZip calls_getTempFromZip getTempFromZip_body_def validateZip_def
      normalized_filter CEP_SIZE_def Let_def calls_tracer_Start)

theorem invalid_zip_unprocessable_witness:
  "Status (fst (getTempFromZip world st0 (gateway_request ''POST'' [(''api_key'', ''secret'')] ''1234''))) = 422
   \<and> calls (snd (getTempFromZip world st0 (gateway_request ''POST'' [(''api_key'', ''secret'')] ''1234''))) = []"
proof -
  let ?r = "gateway_request ''POST'' [(''api_key'', ''secret'')] ''1234''"
  have m: "Method ?r = ''POST''" by (simp add: gateway_request_def)
  have d: "json_Decode_CEP world (Body ?r) = Inr \<lparr>CEP = ''1234''\<rparr>"
    by (simp add: double_defs)
  have k: "Header_Get (Header ?r) ''api_key'' \<noteq> []"
    by (simp add: gateway_request_def Header_Get_def)
  have n: "length (filter isDigit (CEP \<lparr>CEP = ''1234''\<rparr>)) \<noteq> 8"
    by (simp add: isDigit_def)
  from invalid_zip_unprocessable [OF m d k n, of st0] show ?thesis
    by (simp add: Status_http_Error status_defs st0_def)
qed

text \<open>
  Without the condition on the verb the claim fails: the same request sent with \<open>GET\<close>
  is answered \<open>405\<close>.
\<close>

theorem invalid_zip_counterexample:
  "json_Decode_CEP world (Body (gateway_request ''GET'' [(''api_key'', ''secret'')] ''1234'')) = Inr \<lparr>CEP = ''1234''\<rparr>
   \<and> Header_Get (Header (gateway_request ''GET'' [(''api_key'', ''secret'')] ''1234'')) ''api_key'' = ''secret''
   \<and> snd (validateZip ''1234'') = Some InvalidZipcode
   \<and> Status (fst (getTempFromZip world st0 (gateway_request ''GET'' [(''api_key'', ''secret'')] ''1234''))) = 405"
  by (simp add: fst_getTempFromZip getTempFromZip_body_def double_defs Header_Get_def
      Status_http_Error status_defs validateZip_def normalized_filter isDigit_def CEP_SIZE_def)

text \<open>
  Claim C9. When the request that the gateway forwards is answered \<open>200\<close> and the decoder
  reports an error on the body, leaving \<open>rr\<close> in the struct, \<open>getTempFromLocal\<close> returns
  \<open>rr\<close> with a \<open>nil\<close> error and the gateway replies \<open>200\<close> with \<open>rr\<close>: the error of the
  decoder reaches nobody. The hypotheses on the state say that \<open>req\<close> is the request
  handed to \<open>client.Do\<close>.
\<close>

theorem decode_error_not_surfaced:
  assumes "client_Do env req = Inr res"
    and "StatusCode res = StatusOK"
    and "json_Decode_Response env (ResBody res) = (rr, Some err)"
  shows "(calls (snd (getTempFromLocal env st z k)) = calls st @ [req]
            \<longrightarrow> fst (getTempFromLocal env st z k) = (rr, None))
       \<and> (calls (snd (getTempFromZip env st r)) = calls st @ [req]
            \<longrightarrow> fst (getTempFromZip env st r) = write_JSON rr)"
proof (intro conjI impI)
  assume "calls (snd (getTempFromLocal env st z k)) = calls st @ [req]"
  from getTempFromLocal_sent [OF this] assms
  show "fst (getTempFromLocal env st z k) = (rr, None)" by simp
next
  let ?st1 = "snd (snd (tracer_Start env st (Extract Background (Header r)) ''service-a''))"
  assume "calls (snd (getTempFromZip env st r)) = calls st @ [req]"
  then have "calls (snd (getTempFromZip_body env ?st1 r)) = calls ?st1 @ [req]"
    by (simp add: calls_getTempFromZip calls_tracer_Start)
  from getTempFromZip_body_sent [OF this] obtain c z' where
    sent: "calls (snd (getTempFromLocal env ?st1 z' (Header_Get (Header r) ''api_key''))) = calls ?st1 @ [req]"
    and body: "getTempFromZip_body env ?st1 r =
              (case getTempFromLocal env ?st1 z' (Header_Get (Header r) ''api_key'') of
                 ((res, Some err), st') \<Rightarrow> (http_Error (Error err) StatusBadRequest, st')
               | ((res, None), st') \<Rightarrow> (write_JSON res, st'))"
    by blast
  from getTempFromLocal_sent [OF sent] assms
  have "fst (getTempFromLocal env ?st1 z' (Header_Get (Header r) ''api_key'')) = (rr, None)"
    by simp
  then obtain s where "getTempFromLocal env ?st1 z' (Header_Get (Header r) ''api_key'') = ((rr, None), s)"
    by (cases "getTempFromLocal env ?st1 z' (Header_Get (Header r) ''api_key'')") simp
  then show "fst (getTempFromZip env st r) = write_JSON rr"
    by (simp add: fst_getTempFromZip body)
qed


theorem decode_error_not_surfaced_witness:
  "fst (getTempFromLocal world_cut st0 ''01001000'' ''secret'') = (Response_cut, None)
   \<and> fst (getTempFromZip world_cut st0
            (gateway_request ''POST'' [(''api_key'', ''secret'')] ''01001000''))
       = \<lparr>Status = 200, ContentType = ''application/json'', Payload = JSON Response_cut\<rparr>"
proof -
  let ?rq = "\<lambda>t. \<lparr>Method = ''GET'', URL = ''http://service-b:8081'',
              Query = [(''zip'', ''01001000'')],
              Header = [(''api_key'', ''secret''), (''traceparent'', t)], Body = []\<rparr>"
  let ?t0 = "''00-4bf92f3577b34da6a3ce929d0e0e4730-00f067aa0ba902b0-01''"
  let ?t1 = "''00-4bf92f3577b34da6a3ce929d0e0e4731-00f067aa0ba902b1-01''"
  let ?res = "\<lparr>StatusCode = 200, ResBody = Inr body_cut\<rparr>"
  let ?r = "gateway_request ''POST'' [(''api_key'', ''secret'')] ''01001000''"
  have do: "client_Do world_cut rq = Inr ?res" for rq
    by (simp add: world_cut_def world_def)
  have ok: "StatusCode ?res = StatusOK"
    by (simp add: StatusOK_def)
  have dec: "json_Decode_Response world_cut (ResBody ?res)
               = (Response_cut, Some (LibraryError ''unexpected EOF''))"
    by (simp add: world_cut_def world_def)
  have l: "calls (snd (getTempFromLocal world_cut st0 ''01001000'' ''secret'')) =
             calls st0 @ [?rq ?t0]"
    by code_simp
  have g: "calls (snd (getTempFromZip world_cut st0 ?r)) = calls st0 @ [?rq ?t1]"
    by code_simp
  from decode_error_not_surfaced [where req = "?rq ?t0" and st = st0, OF do ok dec] l
  have 1: "fst (getTempFromLocal world_cut st0 ''01001000'' ''secret'') = (Response_cut, None)"
    by blast
  from decode_error_not_surfaced [where req = "?rq ?t1" and st = st0, OF do ok dec] g
  have 2: "fst (getTempFromZip world_cut st0 ?r) = write_JSON Response_cut"
    by blast
  from 1 2 show ?thesis
    by (simp add: write_JSON_def StatusOK_def)
qed

section \<open>Properties of the resolver\<close>

text \<open>
  Claim C1, as amended. In every \<open>Response\<close> that the weather fetch returns without an
  error, and in every one that the resolver writes, the Kelvin field is the Celsius field
  plus 273, in the arithmetic of \<open>float64\<close>. The Fahrenheit field is not derived from the
  Celsius field: both are read from the document of the weather provider, the fields
  \<open>temp_c\<close> and \<open>temp_f\<close> of \<open>current\<close>, and the handler copies them unchanged.
\<close>

theorem kelvin_derived_fahrenheit_read:
  "(fetch env location apiKey = (w, None) \<longrightarrow>
      TempK w = spec_Kelvin (arith env) (TempC w)
      \<and> (\<exists>res bytes v.
            client_Do env (weather_request location apiKey) = Inr res
            \<and> ResBody res = Inr bytes \<and> fastjson_Parse env bytes = Inr v
            \<and> TempC w = GetFloat64 (arith env) v [''current'', ''temp_c'']
            \<and> TempF w = GetFloat64 (arith env) v [''current'', ''temp_f'']))
   \<and> (Payload (fst (getTemp env st r)) = JSON agg \<longrightarrow>
      TempK agg = spec_Kelvin (arith env) (TempC agg)
      \<and> (\<exists>w'. fetch env (City agg) (request_key r) = (w', None)
            \<and> TempC agg = TempC w' \<and> TempF agg = TempF w' \<and> TempK agg = TempK w'))"
proof (intro conjI impI)
  assume "fetch env location apiKey = (w, None)"
  then have f: "fst (getTempFromAPI env st0 Background location apiKey) = (w, None)"
    by (simp add: fetch_def)
  from getTempFromAPI_ok [OF f] obtain res bytes v where
    a: "client_Do env (weather_request location apiKey) = Inr res"
       "ResBody res = Inr bytes" "fastjson_Parse env bytes = Inr v"
    and b: "weather_of (arith env) v = (w, None)"
    by (auto simp add: weather_request_def)
  note c = weather_of_ok [OF b]
  from c show "TempK w = spec_Kelvin (arith env) (TempC w)"
    by (simp add: spec_Kelvin_def)
  from a c show "\<exists>res bytes v.
            client_Do env (weather_request location apiKey) = Inr res
            \<and> ResBody res = Inr bytes \<and> fastjson_Parse env bytes = Inr v
            \<and> TempC w = GetFloat64 (arith env) v [''current'', ''temp_c'']
            \<and> TempF w = GetFloat64 (arith env) v [''current'', ''temp_f'']"
    by blast
next
  assume p: "Payload (fst (getTemp env st r)) = JSON agg"
  have agg: "\<exists>location w'. fetch env location (request_key r) = (w', None)
              \<and> agg = w'\<lparr>City := location\<rparr>"
  proof (cases rule: getTemp_outcomes [where env = env and r = r and st = st])
    case not_get
    then show ?thesis using p by (simp add: http_Error_def)
  next
    case key
    then show ?thesis using p by (simp add: http_Error_def)
  next
    case (unresolved err)
    then show ?thesis using p by (simp add: http_Error_def)
  next
    case (unfetched location err)
    then show ?thesis using p by (simp add: http_Error_def)
  next
    case (aggregated location w)
    then show ?thesis using p by (auto simp add: write_JSON_def)
  qed
  then obtain location w' where
    f: "fetch env location (request_key r) = (w', None)" and e: "agg = w'\<lparr>City := location\<rparr>"
    by blast
  from f have "fst (getTempFromAPI env st0 Background location (request_key r)) = (w', None)"
    by (simp add: fetch_def)
  from getTempFromAPI_ok [OF this] obtain v where "weather_of (arith env) v = (w', None)"
    by blast
  note c = weather_of_ok [OF this]
  from c e show "TempK agg = spec_Kelvin (arith env) (TempC agg)"
    by (simp add: spec_Kelvin_def)
  from f e show "\<exists>w'. fetch env (City agg) (request_key r) = (w', None)
            \<and> TempC agg = TempC w' \<and> TempF agg = TempF w' \<and> TempK agg = TempK w'"
    by auto
qed


theorem kelvin_derived_fahrenheit_read_witness:
  "fetch (world_b doc_city doc_weather) ''Sao Paulo'' ''secret''
     = (\<lparr>City = [], TempC = 25, TempF = 76.5, TempK = 298\<rparr>, None)
   \<and> fst (getTemp (world_b doc_city doc_weather) st0
            (resolver_request ''GET'' [(''api_key'', ''secret'')] ''01001000''))
       = \<lparr>Status = 200, ContentType = ''application/json'',
          Payload = JSON \<lparr>City = ''Sao Paulo'', TempC = 25, TempF = 76.5, TempK = 298\<rparr>\<rparr>
   \<and> spec_Kelvin (arith (world_b doc_city doc_weather)) 25 = 298"
proof -
  let ?env = "world_b doc_city doc_weather"
  let ?w = "\<lparr>City = [], TempC = 25, TempF = 76.5, TempK = 298 :: real\<rparr>"
  let ?r = "resolver_request ''GET'' [(''api_key'', ''secret'')] ''01001000''"
  have f: "fetch ?env ''Sao Paulo'' ''secret'' = (?w, None)"
    by code_simp
  have g: "fst (getTemp ?env st0 ?r) = \<lparr>Status = 200, ContentType = ''application/json'',
          Payload = JSON (?w\<lparr>City := ''Sao Paulo''\<rparr>)\<rparr>"
    by code_simp
  then have p: "Payload (fst (getTemp ?env st0 ?r)) = JSON (?w\<lparr>City := ''Sao Paulo''\<rparr>)"
    by simp
  from kelvin_derived_fahrenheit_read
         [of ?env "''Sao Paulo''" "''secret''" ?w st0 ?r "?w\<lparr>City := ''Sao Paulo''\<rparr>"] f p
  have "TempK ?w = spec_Kelvin (arith ?env) (TempC ?w)"
    by blast
  with f g show ?thesis by simp
qed

text \<open>
  The claim as first stated has Fahrenheit equal to \<open>C*9/5+32\<close>. A provider that reports
  25 degrees Celsius and 76.5 degrees Fahrenheit is passed on as it is, and the formula
  gives 77.
\<close>

theorem fahrenheit_counterexample:
  "snd (fetch (world_b doc_city doc_weather) ''Sao Paulo'' ''secret'') = None
   \<and> TempC (fst (fetch (world_b doc_city doc_weather) ''Sao Paulo'' ''secret'')) = 25
   \<and> TempF (fst (fetch (world_b doc_city doc_weather) ''Sao Paulo'' ''secret'')) = 76.5
   \<and> spec_Fahrenheit (arith (world_b doc_city doc_weather)) 25 = 77
   \<and> TempF (fst (fetch (world_b doc_city doc_weather) ''Sao Paulo'' ''secret''))
       \<noteq> spec_Fahrenheit (arith (world_b doc_city doc_weather))
           (TempC (fst (fetch (world_b doc_city doc_weather) ''Sao Paulo'' ''secret'')))"
  by code_simp

text \<open>
  Claim C4. When the request of the weather fetch is answered, the body is read and
  parsed, and the Celsius value that \<open>GetFloat64\<close> finds compares equal to zero (the
  field is absent, is not a number, or is a true zero), \<open>getTempFromAPI\<close> returns the
  error \<open>error getting weather, invalid API key\<close> with the zero \<open>Response\<close>. The first
  hypothesis says that \<open>req\<close> is the request handed to \<open>client.Do\<close>.
\<close>

theorem zero_celsius_is_invalid_key:
  assumes "calls (snd (getTempFromAPI env st ctx location apiKey)) = calls st @ [req]"
    and "client_Do env req = Inr res"
    and "ResBody res = Inr bytes"
    and "fastjson_Parse env bytes = Inr v"
    and "f_eq (arith env) (GetFloat64 (arith env) v [''current'', ''temp_c''])
           (f_const (arith env) 0)"
  shows "fst (getTempFromAPI env st ctx location apiKey)
           = (Response_zero (arith env), Some InvalidAPIKey)"
proof -
  have "weather_of (arith env) v = (Response_zero (arith env), Some InvalidAPIKey)"
    using assms(5) by (simp add: weather_of_def Let_def)
  with getTempFromAPI_sent [OF assms(1)] assms(2-4) show ?thesis
    by simp
qed

theorem zero_celsius_is_invalid_key_witness:
  "fst (getTempFromAPI (world_b doc_city doc_freezing) st0 Background ''Sao Paulo'' ''secret'')
     = (\<lparr>City = [], TempC = 0, TempF = 0, TempK = 0\<rparr>, Some InvalidAPIKey)
   \<and> fst (getTempFromAPI (world_b doc_city doc_denied) st0 Background ''Sao Paulo'' ''wrong'')
     = (\<lparr>City = [], TempC = 0, TempF = 0, TempK = 0\<rparr>, Some InvalidAPIKey)"
proof -
  let ?res = "\<lparr>StatusCode = 200, ResBody = Inr ''provider''\<rparr>"
  have sent: "calls (snd (getTempFromAPI (world_b doc_city d) st0 Background ''Sao Paulo'' k))
          = calls st0 @ [weather_request ''Sao Paulo'' k]" for d k
    by (simp add: getTempFromAPI_def world_b_def world_def Let_def split_def calls_Do
        calls_span_End calls_tracer_Start weather_request_def)
  have do: "client_Do (world_b doc_city d) (weather_request ''Sao Paulo'' k) = Inr ?res" for d k
    by (simp add: world_b_def world_def weather_request_def)
  have body: "ResBody ?res = Inr ''provider''"
    by simp
  have parse: "fastjson_Parse (world_b doc_city d) ''provider'' = Inr d" for d
    by (simp add: world_b_def world_def)
  have z1: "f_eq (arith (world_b doc_city doc_freezing))
              (GetFloat64 (arith (world_b doc_city doc_freezing)) doc_freezing
                 [''current'', ''temp_c''])
              (f_const (arith (world_b doc_city doc_freezing)) 0)"
    by (simp add: world_b_def world_def exact_def doc_freezing_def GetFloat64_def)
  have z2: "f_eq (arith (world_b doc_city doc_denied))
              (GetFloat64 (arith (world_b doc_city doc_denied)) doc_denied
                 [''current'', ''temp_c''])
              (f_const (arith (world_b doc_city doc_denied)) 0)"
    by (simp add: world_b_def world_def exact_def doc_denied_def GetFloat64_def)
  have zero: "Response_zero (arith (world_b doc_city d))
                = \<lparr>City = [], TempC = 0, TempF = 0, TempK = 0\<rparr>" for d
    by (simp add: Response_zero_def world_b_def world_def exact_def)
  from zero_celsius_is_invalid_key [OF sent do body parse z1]
       zero_celsius_is_invalid_key [OF sent do body parse z2]
  show ?thesis
    by (simp add: zero)
qed

text \<open>
  Claim C6. Within one request to the resolver: if the resolution of the location fails,
  the reply is not a \<open>200\<close>, at most the request to the directory has been sent, and no
  span but the handler's own has been started; a \<open>200\<close> is written only when both the
  resolution and the fetch have returned without an error, and it carries the fetched
  \<open>Response\<close> with the resolved city; and whenever anything is sent beyond the request to
  the directory, the resolution has succeeded and what is sent is the request to the
  directory first and the request to the weather provider, for the resolved city, second.
\<close>

theorem resolution_before_fetch:
  "(snd (resolution env (request_zip r)) \<noteq> None \<longrightarrow>
       Status (fst (getTemp env st r)) \<noteq> StatusOK
       \<and> (new_calls st (snd (getTemp env st r)) = []
           \<or> new_calls st (snd (getTemp env st r)) = [directory_request (request_zip r)])
       \<and> map Name (new_spans st (snd (getTemp env st r))) = [''service-b''])
   \<and> (Status (fst (getTemp env st r)) = StatusOK \<longrightarrow>
       (\<exists>location w. resolution env (request_zip r) = (location, None)
          \<and> fetch env location (request_key r) = (w, None)
          \<and> fst (getTemp env st r) = write_JSON (w\<lparr>City := location\<rparr>)))
   \<and> (new_calls st (snd (getTemp env st r)) \<noteq> []
       \<and> new_calls st (snd (getTemp env st r)) \<noteq> [directory_request (request_zip r)] \<longrightarrow>
       (\<exists>location. resolution env (request_zip r) = (location, None)
          \<and> new_calls st (snd (getTemp env st r)) =
              [directory_request (request_zip r), weather_request location (request_key r)]))"
proof (cases rule: getTemp_outcomes [where env = env and r = r and st = st])
  case not_get
  then show ?thesis by (simp add: Status_http_Error status_defs)
next
  case key
  then show ?thesis by (simp add: Status_http_Error status_defs)
next
  case (unresolved err)
  then show ?thesis by (simp add: Status_http_Error status_defs)
next
  case (unfetched location err)
  then show ?thesis by (auto simp add: Status_http_Error status_defs)
next
  case (aggregated location w)
  then show ?thesis by (simp add: Status_write_JSON)
qed

theorem resolution_before_fetch_witness:
  "snd (resolution (world_b doc_erro doc_weather) ''01001000'') = Some CanNotFindZipcode
   \<and> Status (fst (getTemp (world_b doc_erro doc_weather) st0
         (resolver_request ''GET'' [(''api_key'', ''secret'')] ''01001000''))) = 400
   \<and> new_calls st0 (snd (getTemp (world_b doc_erro doc_weather) st0
         (resolver_request ''GET'' [(''api_key'', ''secret'')] ''01001000'')))
       = [directory_request ''01001000'']
   \<and> Status (fst (getTemp (world_b doc_city doc_weather) st0
         (resolver_request ''GET'' [(''api_key'', ''secret'')] ''01001000''))) = 200
   \<and> resolution (world_b doc_city doc_weather) ''01001000'' = (''Sao Paulo'', None)
   \<and> new_calls st0 (snd (getTemp (world_b doc_city doc_weather) st0
         (resolver_request ''GET'' [(''api_key'', ''secret'')] ''01001000'')))
       = [directory_request ''01001000'', weather_request ''Sao Paulo'' ''secret'']"
proof -
  let ?r = "resolver_request ''GET'' [(''api_key'', ''secret'')] ''01001000''"
  let ?bad = "world_b doc_erro doc_weather" and ?good = "world_b doc_city doc_weather"
  have z: "request_zip ?r = ''01001000''" and k: "request_key ?r = ''secret''"
    by (simp_all add: request_zip_def request_key_def resolver_request_def Query_Get_def
        Header_Get_def)
  have bad: "snd (resolution ?bad ''01001000'') = Some CanNotFindZipcode"
    by code_simp
  have good: "Status (fst (getTemp ?good st0 ?r)) = StatusOK"
    by code_simp
  have sent: "new_calls st0 (snd (getTemp ?good st0 ?r)) \<noteq> []
     \<and> new_calls st0 (snd (getTemp ?good st0 ?r)) \<noteq> [directory_request ''01001000'']"
    by code_simp
  have res: "resolution ?good ''01001000'' = (''Sao Paulo'', None)"
    by code_simp
  have one: "new_calls st0 (snd (getTemp ?bad st0 ?r)) \<noteq> []"
    by code_simp
  from resolution_before_fetch [of ?bad ?r st0] bad one
  have 1: "Status (fst (getTemp ?bad st0 ?r)) \<noteq> StatusOK
     \<and> new_calls st0 (snd (getTemp ?bad st0 ?r)) = [directory_request ''01001000'']"
    by (simp add: z k)
  have 2: "Status (fst (getTemp ?bad st0 ?r)) = 400"
    by code_simp
  from resolution_before_fetch [of ?good ?r st0] sent res
  have 3: "new_calls st0 (snd (getTemp ?good st0 ?r)) =
             [directory_request ''01001000'', weather_request ''Sao Paulo'' ''secret'']"
    by (simp add: z k)
  from bad 1 2 good res 3 show ?thesis
    by (simp add: StatusOK_def)
qed

text \<open>
  Claim C10, as amended. The resolver does not validate \<open>zip\<close>. For every \<open>GET\<close> request
  with a non-empty \<open>api_key\<close> for which \<open>http.NewRequestWithContext\<close> accepts the URL, the
  first outbound request is the one to the directory, with \<open>zip\<close> put into the URL as it
  is, whatever \<open>zip\<close> is; and when the resolution then fails, the reply is a \<open>400\<close> with
  the message of that failure and the request to the directory is the only one sent.
\<close>

theorem zip_not_revalidated:
  assumes "Method r = ''GET''" and "request_key r \<noteq> []"
    and "http_NewRequest env ''GET'' (URL (directory_request (request_zip r))) [] = None"
  shows "URL (directory_request (request_zip r))
           = ''http://viacep.com.br/ws/'' @ request_zip r @ ''/json/''
     \<and> (\<exists>rest. new_calls st (snd (getTemp env st r))
                  = directory_request (request_zip r) # rest)
     \<and> (\<forall>err. snd (resolution env (request_zip r)) = Some err \<longrightarrow>
          fst (getTemp env st r) = http_Error (Error err) StatusBadRequest
          \<and> new_calls st (snd (getTemp env st r)) = [directory_request (request_zip r)])"
proof (cases rule: getTemp_outcomes [where env = env and r = r and st = st])
  case not_get
  with assms show ?thesis by simp
next
  case key
  with assms show ?thesis by simp
next
  case (unresolved err)
  with assms show ?thesis by (simp add: directory_request_def)
next
  case (unfetched location err)
  then show ?thesis by (auto simp add: directory_request_def)
next
  case (aggregated location w)
  then show ?thesis by (simp add: directory_request_def)
qed

theorem zip_not_revalidated_witness:
  "new_calls st0 (snd (getTemp (world_b doc_erro doc_weather) st0
         (resolver_request ''GET'' [(''api_key'', ''secret'')] ''123'')))
     = [directory_request ''123'']
   \<and> URL (directory_request ''123'') = ''http://viacep.com.br/ws/123/json/''
   \<and> fst (getTemp (world_b doc_erro doc_weather) st0
         (resolver_request ''GET'' [(''api_key'', ''secret'')] ''123''))
       = http_Error ''can not find zipcode'' 400
   \<and> new_calls st0 (snd (getTemp (world_b doc_erro doc_weather) st0
         (resolver_request ''GET'' [(''api_key'', ''secret'')] [])))
     = [directory_request []]
   \<and> URL (directory_request []) = ''http://viacep.com.br/ws//json/''"
proof -
  let ?env = "world_b doc_erro doc_weather"
  let ?r = "\<lambda>z. resolver_request ''GET'' [(''api_key'', ''secret'')] z"
  have m: "Method (?r z) = ''GET''" and k: "request_key (?r z) \<noteq> []"
    and z: "request_zip (?r z) = z" for z
    by (simp_all add: request_zip_def request_key_def resolver_request_def Query_Get_def
        Header_Get_def)
  have n1: "http_NewRequest ?env ''GET'' (URL (directory_request (request_zip (?r ''123'')))) []
              = None"
    by (simp add: z world_b_def world_def directory_request_def)
  have n2: "http_NewRequest ?env ''GET'' (URL (directory_request (request_zip (?r [])))) []
              = None"
    by (simp add: z world_b_def world_def directory_request_def)
  have bad: "snd (resolution ?env z) = Some CanNotFindZipcode" if "z = ''123'' \<or> z = []" for z
    using that by (auto simp add: resolution_def getLocation_def world_b_def world_def st0_def
        Let_def split_def Do_def GetString_def doc_erro_def)
  from zip_not_revalidated [OF m k n1, of st0] zip_not_revalidated [OF m k n2, of st0]
       bad [of "''123''"] bad [of "[]"]
  show ?thesis
    by (simp add: z StatusBadRequest_def)
qed

text \<open>
  The claim as first stated has the lookup attempted for every request with a non-empty
  \<open>api_key\<close>. A \<open>POST\<close> is answered \<open>405\<close> and nothing is sent; and a \<open>GET\<close> whose \<open>zip\<close>
  is a line feed is answered \<open>400\<close> and nothing is sent either, since no request can be
  built for a URL with a control character.
\<close>

theorem zip_not_revalidated_counterexample:
  "request_key (resolver_request ''POST'' [(''api_key'', ''secret'')] ''01001000'') = ''secret''
   \<and> new_calls st0 (snd (getTemp (world_b doc_city doc_weather) st0
         (resolver_request ''POST'' [(''api_key'', ''secret'')] ''01001000''))) = []
   \<and> Status (fst (getTemp (world_b doc_city doc_weather) st0
         (resolver_request ''POST'' [(''api_key'', ''secret'')] ''01001000''))) = 405
   \<and> Method (resolver_request ''GET'' [(''api_key'', ''secret'')] [CHR 0x0A]) = ''GET''
   \<and> request_key (resolver_request ''GET'' [(''api_key'', ''secret'')] [CHR 0x0A]) = ''secret''
   \<and> new_calls st0 (snd (getTemp (world_b doc_city doc_weather) st0
         (resolver_request ''GET'' [(''api_key'', ''secret'')] [CHR 0x0A]))) = []
   \<and> Status (fst (getTemp (world_b doc_city doc_weather) st0
         (resolver_request ''GET'' [(''api_key'', ''secret'')] [CHR 0x0A]))) = 400"
  by code_simp

section \<open>Trace context across the two services\<close>

text \<open>
  Claim C8. The context that the gateway injects should continue the trace of the
  gateway's inbound request. It does reach the resolver, whose span takes the injected
  span as its parent. But the injected span is started from \<open>context.Background()\<close>:
  it has no parent and a trace id of its own. Here the client sends a \<open>traceparent\<close>
  with the trace id \<open>0af7...\<close>; the span \<open>service-a\<close> of the gateway is in that trace,
  while the span of the outbound call, and with it the span \<open>service-b\<close> of the resolver,
  is in the trace \<open>4bf9...\<close>.
\<close>

theorem trace_not_continued:
  "map Name (started traced_gateway) = [''service-a'', ''outgoing request to service-b'']
   \<and> TraceID (SpanCtx (started traced_gateway ! 0)) = ''0af7651916cd43dd8448eb211c80319c''
   \<and> Parent (started traced_gateway ! 1) = None
   \<and> TraceID (SpanCtx (started traced_gateway ! 1)) = ''4bf92f3577b34da6a3ce929d0e0e4731''
   \<and> Header_Get (Header traced_forwarded) ''traceparent''
       = traceparent (SpanCtx (started traced_gateway ! 1))
   \<and> Name (started traced_resolver ! 0) = ''service-b''
   \<and> Parent (started traced_resolver ! 0) = Some (SpanCtx (started traced_gateway ! 1))
   \<and> TraceID (SpanCtx (started traced_resolver ! 0))
       \<noteq> TraceID (SpanCtx (started traced_gateway ! 0))"
  by code_simp

end
